theory Spec2Isabelle
  imports Main
begin

section \<open>Strings and dates of the host language\<close>

text \<open>
  Strings are lists of characters with codes 0 to 255. \<open>trim\<close> removes the white space
  and line terminators of the language from both ends (in this range: TAB, LF, VT, FF, CR,
  SPACE and NBSP); \<open>toLowerCase\<close> maps every upper-case letter of the range (A-Z and
  the Latin-1 capitals U+00C0 to U+00DE without the multiplication sign) to its lower-case
  form. A \<open>Date\<close> is its number of milliseconds since the epoch.
\<close>

type_synonym Date = int

definition isWhiteSpace :: "char \<Rightarrow> bool" where
  "isWhiteSpace c = ((of_char c :: nat) \<in> set [9, 10, 11, 12, 13, 32, 160])"

definition trim :: "string \<Rightarrow> string" where
  "trim s = rev (dropWhile isWhiteSpace (rev (dropWhile isWhiteSpace s)))"

definition toLowerChar :: "char \<Rightarrow> char" where
  "toLowerChar c =
     (let n = (of_char c :: nat)
      in if (65 \<le> n \<and> n \<le> 90) \<or> (192 \<le> n \<and> n \<le> 222 \<and> n \<noteq> 215)
         then char_of (n + 32) else c)"

definition toLowerCase :: "string \<Rightarrow> string" where
  "toLowerCase s = map toLowerChar s"

section \<open>The platform the services run on\<close>

text \<open>
  The identity type of the document store and the date formatting are not part of the
  repository: they come from the database driver and the language runtime. The model
  takes them as a parameter: \<open>ObjectId_isValid\<close> is the driver's well-formedness test
  on strings, \<open>ObjectId_new\<close> its constructor from a string, \<open>toHexString\<close> and
  \<open>toISOString\<close> the two renderings used at the service boundary. Two identities are
  equal (\<open>equals\<close>) when they are the same value of type \<open>'oid\<close>.
\<close>

record 'oid platform =
  ObjectId_isValid :: "string \<Rightarrow> bool"
  ObjectId_new :: "string \<Rightarrow> 'oid"
  toHexString :: "'oid \<Rightarrow> string"
  toISOString :: "Date \<Rightarrow> string"

section \<open>Organisation model (organisation.model.ts)\<close>

datatype OrganisationStatus = Org_active | Org_inactive | Org_archived

text \<open>
  The stored document, with the fields the service and the repository read and write.
  They call the unique short name \<open>slug\<close>; the document interface and the zod schema of
  organisation.model.ts call it \<open>code\<close>.
\<close>

record 'oid OrganisationDocument =
  o_id :: "'oid"
  o_name :: string
  o_slug :: string
  o_status :: OrganisationStatus
  o_createdAt :: Date
  o_updatedAt :: Date

text \<open>
  The input of \<open>create\<close> is an object of the type inferred from the zod schema: it has
  \<open>name\<close>, \<open>code\<close> and \<open>status\<close>. The service reads \<open>input.slug\<close>, which that type
  does not name: \<open>ci_slug\<close> is the value of the property \<open>slug\<close> when the object handed
  to the service carries one besides the declared ones, and \<open>None\<close> when it does not
  (the property then reads as undefined). The service also provides for a missing status.
\<close>

record CreateOrganisationInput =
  ci_name :: string
  ci_code :: string
  ci_slug :: "string option"
  ci_status :: "OrganisationStatus option"

text \<open>
  The input of \<open>update\<close> is an object in which every property may be missing;
  \<open>ui_slug\<close> is the value of its property \<open>slug\<close> when it carries one, as for
  \<open>create\<close>.
\<close>

record UpdateOrganisationInput =
  ui_name :: "string option"
  ui_slug :: "string option"
  ui_status :: "OrganisationStatus option"

text \<open>
  The pattern \<open>^[a-z0-9]+(?:-[a-z0-9]+)*$\<close> of both schemas, as the automaton that reads
  the string: the flag says that the current segment already has a character.
\<close>

definition isSlugChar :: "char \<Rightarrow> bool" where
  "isSlugChar c =
     (let n = (of_char c :: nat) in (97 \<le> n \<and> n \<le> 122) \<or> (48 \<le> n \<and> n \<le> 57))"

fun slugRest :: "bool \<Rightarrow> string \<Rightarrow> bool" where
  "slugRest seg [] = seg"
| "slugRest seg (c # cs) =
     (if isSlugChar c then slugRest True cs
      else if c = CHR ''-'' \<and> seg then slugRest False cs
      else False)"

definition matchesSlugPattern :: "string \<Rightarrow> bool" where
  "matchesSlugPattern s = slugRest False s"

text \<open>
  A request body is a JSON object; of its properties the model keeps \<open>name\<close>, \<open>code\<close>,
  \<open>slug\<close> and \<open>status\<close>, each a string (a status of the enumeration) or absent.
  \<open>createOrganisationSchema_parse\<close> is \<open>createOrganisationSchema.parse\<close>: it asks for a
  non-empty \<open>name\<close> and a \<open>code\<close> that matches the pattern, fills in the default
  status, and returns an object with these three properties only (a zod object schema
  drops the properties it does not name, \<open>slug\<close> among them).
\<close>

record RequestBody =
  rb_name :: "string option"
  rb_code :: "string option"
  rb_slug :: "string option"
  rb_status :: "OrganisationStatus option"

datatype ZodError = ZodError

definition createOrganisationSchema_parse :: "RequestBody \<Rightarrow> ZodError + CreateOrganisationInput" where
  "createOrganisationSchema_parse body =
     (case (rb_name body, rb_code body) of
        (Some n, Some c) \<Rightarrow>
          if 1 \<le> length n \<and> 1 \<le> length c \<and> matchesSlugPattern c
          then Inr \<lparr> ci_name = n, ci_code = c, ci_slug = None,
                     ci_status = Some (case rb_status body of None \<Rightarrow> Org_active | Some st \<Rightarrow> st) \<rparr>
          else Inl ZodError
      | _ \<Rightarrow> Inl ZodError)"

section \<open>Organisation repository (organisation.repository.ts)\<close>

text \<open>
  The collection is the list of its documents. Every repository call is one atomic
  operation of the store. \<open>findOne\<close> returns the first document that matches;
  \<open>insertOne\<close> refuses a document whose identity is already stored (the store keeps
  identities unique); \<open>findOneAndUpdate\<close> and \<open>deleteOne\<close> act on the first match.
\<close>

type_synonym 'oid collection = "'oid OrganisationDocument list"

record UpdateOrganisationDoc =
  p_name :: "string option"
  p_slug :: "string option"
  p_status :: "OrganisationStatus option"
  p_updatedAt :: "Date option"

definition findById :: "'oid \<Rightarrow> 'oid collection \<Rightarrow> 'oid OrganisationDocument option" where
  "findById i docs = find (\<lambda>d. o_id d = i) docs"

definition findBySlug :: "string \<Rightarrow> 'oid collection \<Rightarrow> 'oid OrganisationDocument option" where
  "findBySlug s docs = find (\<lambda>d. o_slug d = s) docs"

definition repository_create ::
  "'oid \<Rightarrow> string \<Rightarrow> string \<Rightarrow> OrganisationStatus \<Rightarrow> Date \<Rightarrow> Date \<Rightarrow> 'oid collection
     \<Rightarrow> 'oid OrganisationDocument option \<times> 'oid collection" where
  "repository_create insertedId nm sl st created updated docs =
     (let doc = \<lparr> o_id = insertedId, o_name = nm, o_slug = sl, o_status = st,
                  o_createdAt = created, o_updatedAt = updated \<rparr>
      in if insertedId \<in> set (map o_id docs) then (None, docs)
         else (Some doc, docs @ [doc]))"

definition applySet :: "UpdateOrganisationDoc \<Rightarrow> 'oid OrganisationDocument \<Rightarrow> 'oid OrganisationDocument" where
  "applySet p d =
     d \<lparr> o_name := (case p_name p of None \<Rightarrow> o_name d | Some n \<Rightarrow> n),
         o_slug := (case p_slug p of None \<Rightarrow> o_slug d | Some s \<Rightarrow> s),
         o_status := (case p_status p of None \<Rightarrow> o_status d | Some st \<Rightarrow> st),
         o_updatedAt := (case p_updatedAt p of None \<Rightarrow> o_updatedAt d | Some t \<Rightarrow> t) \<rparr>"

fun replaceFirst :: "('a \<Rightarrow> bool) \<Rightarrow> ('a \<Rightarrow> 'a) \<Rightarrow> 'a list \<Rightarrow> 'a list" where
  "replaceFirst q f [] = []"
| "replaceFirst q f (x # xs) = (if q x then f x # xs else x # replaceFirst q f xs)"

fun removeFirst :: "('a \<Rightarrow> bool) \<Rightarrow> 'a list \<Rightarrow> 'a list" where
  "removeFirst q [] = []"
| "removeFirst q (x # xs) = (if q x then xs else x # removeFirst q xs)"

definition updateById ::
  "'oid \<Rightarrow> UpdateOrganisationDoc \<Rightarrow> 'oid collection
     \<Rightarrow> 'oid OrganisationDocument option \<times> 'oid collection" where
  "updateById i p docs =
     (case find (\<lambda>d. o_id d = i) docs of
        None \<Rightarrow> (None, docs)
      | Some d \<Rightarrow> (Some (applySet p d), replaceFirst (\<lambda>d. o_id d = i) (applySet p) docs))"

definition deleteById :: "'oid \<Rightarrow> 'oid collection \<Rightarrow> bool \<times> 'oid collection" where
  "deleteById i docs =
     (case find (\<lambda>d. o_id d = i) docs of
        None \<Rightarrow> (False, docs)
      | Some d \<Rightarrow> (True, removeFirst (\<lambda>d. o_id d = i) docs))"

section \<open>Organisation service (organisation.service.ts)\<close>

record OrganisationResponse =
  r_id :: string
  r_name :: string
  r_slug :: string
  r_status :: OrganisationStatus
  r_createdAt :: string
  r_updatedAt :: string

text \<open>
  What a call of the service can throw: its own three errors, the failure of the store
  itself (a refused insert), which the service does not catch, and the TypeError of the
  language when a method is called on undefined.
\<close>

datatype OrganisationError =
    InvalidOrganisationIdError
  | OrganisationNotFoundError
  | OrganisationSlugTakenError
  | StorageError
  | TypeError

definition toOrganisationResponse ::
  "'oid platform \<Rightarrow> 'oid OrganisationDocument \<Rightarrow> OrganisationResponse" where
  "toOrganisationResponse P organisation =
     \<lparr> r_id = toHexString P (o_id organisation),
       r_name = o_name organisation,
       r_slug = o_slug organisation,
       r_status = o_status organisation,
       r_createdAt = toISOString P (o_createdAt organisation),
       r_updatedAt = toISOString P (o_updatedAt organisation) \<rparr>"

definition normaliseSlug :: "string \<Rightarrow> string" where
  "normaliseSlug slug = toLowerCase (trim slug)"

definition normaliseName :: "string \<Rightarrow> string" where
  "normaliseName name = trim name"

definition parseObjectId :: "'oid platform \<Rightarrow> string \<Rightarrow> OrganisationError + 'oid" where
  "parseObjectId P i =
     (if \<not> ObjectId_isValid P i then Inl InvalidOrganisationIdError
      else Inr (ObjectId_new P i))"

definition getById ::
  "'oid platform \<Rightarrow> string \<Rightarrow> 'oid collection \<Rightarrow> OrganisationError + OrganisationResponse" where
  "getById P i docs =
     (case parseObjectId P i of
        Inl e \<Rightarrow> Inl e
      | Inr objectId \<Rightarrow>
          (case findById objectId docs of
             None \<Rightarrow> Inl OrganisationNotFoundError
           | Some organisation \<Rightarrow> Inr (toOrganisationResponse P organisation)))"

text \<open>
  The service holds no lock and opens no transaction, so between two repository calls of
  one service call other requests may change the collection. \<open>env\<close> is what they do to
  it in that gap; a call that runs alone has \<open>env = (\<lambda>s. s)\<close>. \<open>now\<close> is the clock
  reading of the call and \<open>insertedId\<close> the identity the driver generates for the
  new document. Every operation returns its outcome and the collection it leaves.
\<close>

definition create ::
  "'oid platform \<Rightarrow> ('oid collection \<Rightarrow> 'oid collection) \<Rightarrow> Date \<Rightarrow> 'oid
     \<Rightarrow> CreateOrganisationInput \<Rightarrow> 'oid collection
     \<Rightarrow> (OrganisationError + OrganisationResponse) \<times> 'oid collection" where
  "create P env now insertedId inp docs =
     (let name = normaliseName (ci_name inp)
      in case ci_slug inp of
           None \<Rightarrow> (Inl TypeError, docs)
         | Some inputSlug \<Rightarrow>
             (let slug = normaliseSlug inputSlug
              in case findBySlug slug docs of
                   Some existing \<Rightarrow> (Inl OrganisationSlugTakenError, docs)
                 | None \<Rightarrow>
                     (case repository_create insertedId name slug
                             (case ci_status inp of None \<Rightarrow> Org_active | Some st \<Rightarrow> st)
                             now now (env docs) of
                        (None, docs') \<Rightarrow> (Inl StorageError, docs')
                      | (Some organisation, docs') \<Rightarrow>
                          (Inr (toOrganisationResponse P organisation), docs'))))"

definition update ::
  "'oid platform \<Rightarrow> ('oid collection \<Rightarrow> 'oid collection) \<Rightarrow> ('oid collection \<Rightarrow> 'oid collection)
     \<Rightarrow> Date \<Rightarrow> string \<Rightarrow> UpdateOrganisationInput \<Rightarrow> 'oid collection
     \<Rightarrow> (OrganisationError + OrganisationResponse) \<times> 'oid collection" where
  "update P env1 env2 now i inp docs =
     (case parseObjectId P i of
        Inl e \<Rightarrow> (Inl e, docs)
      | Inr objectId \<Rightarrow>
          (case findById objectId docs of
             None \<Rightarrow> (Inl OrganisationNotFoundError, docs)
           | Some organisation \<Rightarrow>
               (let docs1 = env1 docs;
                    taken =
                      (case ui_slug inp of
                         None \<Rightarrow> False
                       | Some s \<Rightarrow>
                           normaliseSlug s \<noteq> o_slug organisation \<and>
                           (case findBySlug (normaliseSlug s) docs1 of
                              None \<Rightarrow> False
                            | Some existing \<Rightarrow> o_id existing \<noteq> o_id organisation))
                in if taken then (Inl OrganisationSlugTakenError, docs1)
                   else
                     (let payload =
                            \<lparr> p_name = map_option normaliseName (ui_name inp),
                              p_slug = map_option normaliseSlug (ui_slug inp),
                              p_status = ui_status inp,
                              p_updatedAt = Some now \<rparr>
                      in case updateById (o_id organisation) payload (env2 docs1) of
                           (None, docs2) \<Rightarrow> (Inl OrganisationNotFoundError, docs2)
                         | (Some updated, docs2) \<Rightarrow>
                             (Inr (toOrganisationResponse P updated), docs2)))))"

definition delete ::
  "'oid platform \<Rightarrow> string \<Rightarrow> 'oid collection \<Rightarrow> (OrganisationError + unit) \<times> 'oid collection" where
  "delete P i docs =
     (case parseObjectId P i of
        Inl e \<Rightarrow> (Inl e, docs)
      | Inr objectId \<Rightarrow>
          (case deleteById objectId docs of
             (False, docs') \<Rightarrow> (Inl OrganisationNotFoundError, docs')
           | (True, docs') \<Rightarrow> (Inr (), docs')))"

section \<open>The create route (organisation.routes.ts)\<close>

text \<open>
  The handler of \<open>POST /organisations\<close>: it parses the body with the zod schema, hands
  the result to \<open>create\<close> and answers 201 with the view. \<open>mapServiceError\<close> turns the
  three errors of the service into 400, 404 and 409 and throws anything else again, which
  the framework answers with 500; a failed parse is such an error.
\<close>

datatype HttpReply =
    Http201 OrganisationResponse
  | Http400 string
  | Http404 string
  | Http409 string
  | Http500

fun mapServiceError :: "OrganisationError \<Rightarrow> HttpReply" where
  "mapServiceError InvalidOrganisationIdError = Http400 ''Invalid organisation id''"
| "mapServiceError OrganisationNotFoundError = Http404 ''Organisation not found''"
| "mapServiceError OrganisationSlugTakenError = Http409 ''Organisation slug already exists''"
| "mapServiceError StorageError = Http500"
| "mapServiceError TypeError = Http500"

definition createHandler ::
  "'oid platform \<Rightarrow> ('oid collection \<Rightarrow> 'oid collection) \<Rightarrow> Date \<Rightarrow> 'oid
     \<Rightarrow> RequestBody \<Rightarrow> 'oid collection \<Rightarrow> HttpReply \<times> 'oid collection" where
  "createHandler P env now insertedId requestBody docs =
     (case createOrganisationSchema_parse requestBody of
        Inl ZodError \<Rightarrow> (Http500, docs)
      | Inr body \<Rightarrow>
          (case create P env now insertedId body docs of
             (Inl e, docs') \<Rightarrow> (mapServiceError e, docs')
           | (Inr organisation, docs') \<Rightarrow> (Http201 organisation, docs')))"

section \<open>User model (user.model.ts), configuration (config/env.ts) and tokens (plugins/jwt.ts)\<close>

datatype UserStatus = User_active | User_inactive | User_invited | User_suspended

text \<open>The text a status has inside a template literal.\<close>

fun statusText :: "UserStatus \<Rightarrow> string" where
  "statusText User_active = ''active''"
| "statusText User_inactive = ''inactive''"
| "statusText User_invited = ''invited''"
| "statusText User_suspended = ''suspended''"

record 'oid UserDocument =
  u_id :: "'oid"
  u_createdAt :: Date
  u_updatedAt :: Date
  u_orgId :: "'oid option"
  u_roleId :: "'oid option"
  u_designationId :: "'oid option"
  u_email :: string
  u_passwordHash :: string
  u_status :: UserStatus
  u_mobileNumber :: "string option"
  u_lastLoginAt :: "Date option"

text \<open>
  The users collection, with a counter of the write calls it has received: the login
  handler talks to the collection directly, and the counter makes its writes visible.
\<close>

record 'oid usersCollection =
  users :: "'oid UserDocument list"
  writeCalls :: nat

definition users_findOne ::
  "('oid UserDocument \<Rightarrow> bool) \<Rightarrow> 'oid usersCollection \<Rightarrow> 'oid UserDocument option" where
  "users_findOne flt coll = find flt (users coll)"

definition users_updateOne ::
  "'oid \<Rightarrow> ('oid UserDocument \<Rightarrow> 'oid UserDocument) \<Rightarrow> 'oid usersCollection
     \<Rightarrow> 'oid usersCollection" where
  "users_updateOne i f coll =
     coll \<lparr> users := replaceFirst (\<lambda>u. u_id u = i) f (users coll),
            writeCalls := Suc (writeCalls coll) \<rparr>"

record config =
  JWT_ACCESS_SECRET :: string
  JWT_REFRESH_SECRET :: string
  JWT_ACCESS_TTL :: string
  JWT_REFRESH_TTL :: string

text \<open>What envSchema asks of the four token settings: each is a non-empty string.\<close>

definition envSchema :: "config \<Rightarrow> bool" where
  "envSchema cfg =
     (1 \<le> length (JWT_ACCESS_SECRET cfg) \<and> 1 \<le> length (JWT_REFRESH_SECRET cfg) \<and>
      1 \<le> length (JWT_ACCESS_TTL cfg) \<and> 1 \<le> length (JWT_REFRESH_TTL cfg))"

datatype TokenType = access | refresh

record JwtPayload =
  sub :: string
  email :: string
  orgId :: "string option"
  roleId :: "string option"
  designationId :: "string option"
  sessionId :: string
  tokenType :: TokenType

text \<open>
  The signer is a library. A token is represented by what the signer was given: the payload
  to sign, the validity period and the key. \<open>jwt_sign\<close> is the \<open>sign\<close> of the plugin
  as jwt.ts registers it: without options it signs with the access secret and the access
  validity period.
\<close>

record token =
  t_payload :: JwtPayload
  t_expiresIn :: string
  t_key :: string

record signOptions =
  expiresIn :: string
  key :: string

definition jwt_sign :: "config \<Rightarrow> JwtPayload \<Rightarrow> signOptions option \<Rightarrow> token" where
  "jwt_sign cfg payload opts =
     (case opts of
        None \<Rightarrow>
          \<lparr> t_payload = payload, t_expiresIn = JWT_ACCESS_TTL cfg, t_key = JWT_ACCESS_SECRET cfg \<rparr>
      | Some opt \<Rightarrow>
          \<lparr> t_payload = payload, t_expiresIn = expiresIn opt, t_key = key opt \<rparr>)"

text \<open>
  What a token decodes to. The signer adds two fields to the payload it is given: the time
  of issue \<open>iat\<close>, read from its own clock, and the expiry \<open>exp\<close>, the time of issue
  plus the validity period. \<open>seconds\<close> is the library's reading of a period such as
  \<open>15m\<close> and \<open>issuedAt\<close> the signer's clock when it made the token.
\<close>

record DecodedPayload = JwtPayload +
  iat :: int
  exp :: int

definition jwt_decode :: "(string \<Rightarrow> int) \<Rightarrow> int \<Rightarrow> token \<Rightarrow> DecodedPayload" where
  "jwt_decode seconds issuedAt tok =
     \<lparr> sub = sub (t_payload tok),
       email = email (t_payload tok),
       orgId = orgId (t_payload tok),
       roleId = roleId (t_payload tok),
       designationId = designationId (t_payload tok),
       sessionId = sessionId (t_payload tok),
       tokenType = tokenType (t_payload tok),
       iat = issuedAt,
       exp = issuedAt + seconds (t_expiresIn tok) \<rparr>"

section \<open>Login handler (auth.routes.ts)\<close>

text \<open>
  Two more libraries: \<open>bcrypt_compare\<close> checks a password against a stored hash, and
  \<open>regex_i_test\<close> says whether the store matches a string against a pattern source
  without regard to case.
\<close>

record authLibs =
  bcrypt_compare :: "string \<Rightarrow> string \<Rightarrow> bool"
  regex_i_test :: "string \<Rightarrow> string \<Rightarrow> bool"

record LoginBody =
  b_email :: string
  b_password :: string

record LoginUser =
  lu_id :: string
  lu_email :: string
  lu_status :: UserStatus
  lu_orgId :: "string option"
  lu_roleId :: "string option"
  lu_designationId :: "string option"
  lu_mobileNumber :: "string option"
  lu_lastLoginAt :: string

record LoginReply =
  accessToken :: token
  refreshToken :: token
  user :: LoginUser

datatype LoginOutcome =
    InternalServerError string
  | Unauthorized string
  | Forbidden string
  | Reply LoginReply

definition isRegexSpecial :: "char \<Rightarrow> bool" where
  "isRegexSpecial c = (c \<in> set (''.*+?^${}()|[]'' @ [CHR 0x5C]))"

definition escapeForRegex :: "string \<Rightarrow> string" where
  "escapeForRegex v = concat (map (\<lambda>c. if isRegexSpecial c then [CHR 0x5C, c] else [c]) v)"

text \<open>
  The handler of \<open>POST /login\<close>. \<open>loginTime\<close> is the clock reading and \<open>sid\<close> the
  random identifier drawn for the session; \<open>db\<close> is \<open>None\<close> when the database client
  is not initialised. The handler returns its outcome and the collection it leaves.
\<close>

definition findUser ::
  "authLibs \<Rightarrow> string \<Rightarrow> 'oid usersCollection \<Rightarrow> 'oid UserDocument option" where
  "findUser L em coll =
     (let trimmedEmail = trim em
      in case users_findOne (\<lambda>u. u_email u = trimmedEmail) coll of
           Some u \<Rightarrow> Some u
         | None \<Rightarrow>
             (if trimmedEmail \<noteq> []
              then users_findOne
                     (\<lambda>u. regex_i_test L (''^'' @ escapeForRegex trimmedEmail @ ''$'') (u_email u))
                     coll
              else None))"

definition login ::
  "'oid platform \<Rightarrow> authLibs \<Rightarrow> config \<Rightarrow> Date \<Rightarrow> string \<Rightarrow> LoginBody
     \<Rightarrow> 'oid usersCollection option \<Rightarrow> LoginOutcome \<times> 'oid usersCollection option" where
  "login P L cfg loginTime sid body db =
     (case db of
        None \<Rightarrow> (InternalServerError ''Database connection not initialised'', None)
      | Some coll \<Rightarrow>
          (case findUser L (b_email body) coll of
             None \<Rightarrow> (Unauthorized ''Invalid email or password'', Some coll)
           | Some usr \<Rightarrow>
               if \<not> bcrypt_compare L (b_password body) (u_passwordHash usr)
               then (Unauthorized ''Invalid email or password'', Some coll)
               else if u_status usr \<noteq> User_active
               then (Forbidden (''User is '' @ statusText (u_status usr)), Some coll)
               else
                 (let basePayload = (\<lambda>tt.
                        \<lparr> sub = toHexString P (u_id usr),
                          email = u_email usr,
                          orgId = map_option (toHexString P) (u_orgId usr),
                          roleId = map_option (toHexString P) (u_roleId usr),
                          designationId = map_option (toHexString P) (u_designationId usr),
                          sessionId = sid,
                          tokenType = tt \<rparr>);
                      accessTok = jwt_sign cfg (basePayload access) None;
                      refreshTok = jwt_sign cfg (basePayload refresh)
                          (Some \<lparr> expiresIn = JWT_REFRESH_TTL cfg, key = JWT_REFRESH_SECRET cfg \<rparr>);
                      coll' = users_updateOne (u_id usr)
                          (\<lambda>u. u \<lparr> u_lastLoginAt := Some loginTime, u_updatedAt := loginTime \<rparr>) coll
                  in (Reply
                        \<lparr> accessToken = accessTok,
                          refreshToken = refreshTok,
                          user =
                            \<lparr> lu_id = toHexString P (u_id usr),
                              lu_email = u_email usr,
                              lu_status = u_status usr,
                              lu_orgId = map_option (toHexString P) (u_orgId usr),
                              lu_roleId = map_option (toHexString P) (u_roleId usr),
                              lu_designationId = map_option (toHexString P) (u_designationId usr),
                              lu_mobileNumber = u_mobileNumber usr,
                              lu_lastLoginAt = toISOString P loginTime \<rparr> \<rparr>,
                      Some coll'))))"

section \<open>Runs of service calls\<close>

text \<open>
  A call of the organisation service that can change the collection, together with the
  calls of other requests that run in its gaps: for \<open>create\<close> between its lookup and its
  insert, for \<open>update\<close> between its load and its slug lookup and between that and its
  write. \<open>runCall\<close> is the collection a call leaves, \<open>runCalls\<close> the collection left by
  a list of calls made one after the other. A call runs \<open>alone\<close> when its gaps are empty.
\<close>

datatype 'oid serviceCall =
    Create Date "'oid" CreateOrganisationInput "'oid serviceCall list"
  | Update Date string UpdateOrganisationInput "'oid serviceCall list" "'oid serviceCall list"
  | Delete string



fun alone :: "'oid serviceCall \<Rightarrow> bool" where
  "alone (Create now i inp gap) = (gap = [])"
| "alone (Update now i inp gap1 gap2) = (gap1 = [] \<and> gap2 = [])"
| "alone (Delete i) = True"




definition idsUnique :: "'oid collection \<Rightarrow> bool" where
  "idsUnique docs = distinct (map o_id docs)"

section \<open>A platform to run the model on\<close>

text \<open>
  For evaluating the model on concrete requests: identities are their 24-digit hexadecimal
  strings in lower case, a string is a well-formed identity when it has 24 hexadecimal
  digits, and a date is printed as its millisecond count. The password check accepts the
  hash \<open>bcrypt:\<close> followed by the password, and the pattern match compares the
  lower-case forms.
\<close>

definition isHexDigit :: "char \<Rightarrow> bool" where
  "isHexDigit c =
     (let n = (of_char c :: nat)
      in (48 \<le> n \<and> n \<le> 57) \<or> (97 \<le> n \<and> n \<le> 102) \<or> (65 \<le> n \<and> n \<le> 70))"

fun decimal :: "nat \<Rightarrow> string" where
  "decimal n =
     (if n < 10 then [char_of (48 + n)] else decimal (n div 10) @ [char_of (48 + n mod 10)])"

definition hexPlatform :: "string platform" where
  "hexPlatform =
     \<lparr> ObjectId_isValid = (\<lambda>s. length s = 24 \<and> list_all isHexDigit s),
       ObjectId_new = toLowerCase,
       toHexString = (\<lambda>i. i),
       toISOString = (\<lambda>t. decimal (nat t)) \<rparr>"

definition plainLibs :: authLibs where
  "plainLibs =
     \<lparr> bcrypt_compare = (\<lambda>pw h. h = ''bcrypt:'' @ pw),
       regex_i_test = (\<lambda>pat s. toLowerCase pat = ''^'' @ escapeForRegex (toLowerCase s) @ ''$'') \<rparr>"

definition splitConfig :: config where
  "splitConfig =
     \<lparr> JWT_ACCESS_SECRET = ''access-secret'', JWT_REFRESH_SECRET = ''refresh-secret'',
       JWT_ACCESS_TTL = ''15m'', JWT_REFRESH_TTL = ''7d'' \<rparr>"

definition sharedConfig :: config where
  "sharedConfig =
     \<lparr> JWT_ACCESS_SECRET = ''one-secret'', JWT_REFRESH_SECRET = ''one-secret'',
       JWT_ACCESS_TTL = ''1h'', JWT_REFRESH_TTL = ''1h'' \<rparr>"

text \<open>A reading of validity periods for the evaluation: 15 minutes, 7 days, else one hour.\<close>

definition clockSeconds :: "string \<Rightarrow> int" where
  "clockSeconds period = (if period = ''15m'' then 900 else if period = ''7d'' then 604800 else 3600)"

definition acme :: "string OrganisationDocument" where
  "acme =
     \<lparr> o_id = ''65f0a1b2c3d4e5f601234567'', o_name = ''Acme'', o_slug = ''acme'',
       o_status = Org_active, o_createdAt = 1000, o_updatedAt = 1000 \<rparr>"

definition globex :: "string OrganisationDocument" where
  "globex =
     \<lparr> o_id = ''65f0a1b2c3d4e5f601234568'', o_name = ''Globex'', o_slug = ''globex'',
       o_status = Org_inactive, o_createdAt = 2000, o_updatedAt = 2500 \<rparr>"

definition alice :: "string UserDocument" where
  "alice =
     \<lparr> u_id = ''65f0a1b2c3d4e5f6012345a1'', u_createdAt = 10, u_updatedAt = 10,
       u_orgId = Some ''65f0a1b2c3d4e5f601234567'', u_roleId = None, u_designationId = None,
       u_email = ''alice@example.com'', u_passwordHash = ''bcrypt:ChangeMeNow!123'',
       u_status = User_active, u_mobileNumber = None, u_lastLoginAt = None \<rparr>"

definition bob :: "string UserDocument" where
  "bob =
     \<lparr> u_id = ''65f0a1b2c3d4e5f6012345b2'', u_createdAt = 20, u_updatedAt = 20,
       u_orgId = None, u_roleId = None, u_designationId = None,
       u_email = ''bob@example.com'', u_passwordHash = ''bcrypt:hunter2hunter2'',
       u_status = User_invited, u_mobileNumber = None, u_lastLoginAt = None \<rparr>"

definition someUsers :: "string usersCollection" where
  "someUsers = \<lparr> users = [alice, bob], writeCalls = 0 \<rparr>"




definition acmeDeleted :: "string collection \<Rightarrow> string collection" where
  "acmeDeleted docs = snd (delete hexPlatform ''65f0a1b2c3d4e5f601234567'' docs)"


section \<open>Facts about the store and the strings\<close>

lemma find_id_mem: "find q xs = Some x \<Longrightarrow> x \<in> set xs \<and> q x"
  by (induction xs) (auto split: if_splits)

lemma find_none_all: "find q xs = None \<longleftrightarrow> (\<forall>x \<in> set xs. \<not> q x)"
  by (induction xs) auto

lemma eq_char_of_iff: "c = char_of (n::nat) \<longleftrightarrow> take_bit 8 n = of_char c"
  using char_of_eq_iff [of n c] by auto

lemmas string_eval = trim_def isWhiteSpace_def toLowerCase_def toLowerChar_def char_of_eq_iff
  eq_char_of_iff

lemmas sample_eval = hexPlatform_def isHexDigit_def acme_def globex_def


lemma findById_absent: "findById i docs = None \<longleftrightarrow> i \<notin> o_id ` set docs"
  by (auto simp: findById_def find_none_all)

lemma find_replaceFirst:
  "find q xs = Some x \<Longrightarrow> q (f x) \<Longrightarrow> find q (replaceFirst q f xs) = Some (f x)"
  by (induction xs) (auto split: if_splits)

lemma applySet_id: "o_id (applySet p d) = o_id d"
  by (simp add: applySet_def)

lemma replaceFirst_append:
  "\<forall>y \<in> set ys. \<not> q y \<Longrightarrow> q x \<Longrightarrow> replaceFirst q f (ys @ x # zs) = ys @ f x # zs"
  by (induction ys) auto


lemma same_key_same_element:
  "distinct (map k xs) \<Longrightarrow> x \<in> set xs \<Longrightarrow> y \<in> set xs \<Longrightarrow> k x = k y \<Longrightarrow> x = y"
  by (auto simp: distinct_map inj_on_def)

section \<open>The organisation service: create\<close>

text \<open>
  What \<open>create\<close> does with an object that carries a slug, and with one that carries none;
  the object that the zod schema returns carries none.
\<close>

lemma create_with_slug:
  assumes "ci_slug inp = Some inputSlug"
  shows "(fst (create P env now insertedId inp docs) = Inl OrganisationSlugTakenError
      \<longleftrightarrow> (\<exists>d \<in> set docs. o_slug d = toLowerCase (trim inputSlug)))
   \<and> (\<forall>v docs'. create P env now insertedId inp docs = (Inr v, docs') \<longrightarrow>
        r_slug v = toLowerCase (trim inputSlug) \<and>
        r_name v = trim (ci_name inp) \<and>
        r_status v = (case ci_status inp of None \<Rightarrow> Org_active | Some st \<Rightarrow> st) \<and>
        r_createdAt v = r_updatedAt v \<and>
        docs' = env docs @ [\<lparr> o_id = insertedId, o_name = trim (ci_name inp),
                   o_slug = toLowerCase (trim inputSlug),
                   o_status = (case ci_status inp of None \<Rightarrow> Org_active | Some st \<Rightarrow> st),
                   o_createdAt = now, o_updatedAt = now \<rparr>])
   \<and> ((\<forall>d \<in> set docs. o_slug d \<noteq> toLowerCase (trim inputSlug)) \<and>
        insertedId \<notin> o_id ` set (env docs)
        \<longrightarrow> (\<exists>v docs'. create P env now insertedId inp docs = (Inr v, docs')))"
  using assms
  by (auto simp: create_def findBySlug_def repository_create_def normaliseSlug_def
        normaliseName_def toOrganisationResponse_def Let_def find_none_all
      dest: find_id_mem
      split: option.splits prod.splits if_splits)

lemma create_without_slug:
  "ci_slug inp = None \<Longrightarrow> create P env now insertedId inp docs = (Inl TypeError, docs)"
  by (simp add: create_def Let_def)

lemma parse_drops_slug:
  "createOrganisationSchema_parse body = Inr inp \<Longrightarrow> ci_slug inp = None"
  by (auto simp: createOrganisationSchema_parse_def split: option.splits if_splits)

text \<open>
  Claim C1 is about create calls whose input passed validation, and promises a view with
  the trimmed, lower-cased input slug or a slug-taken failure. The validation is
  \<open>createOrganisationSchema.parse\<close>, and the object it returns has \<open>name\<close>, \<open>code\<close>
  and \<open>status\<close> but no \<open>slug\<close>. On every such object \<open>create\<close> throws the TypeError
  of \<open>undefined.trim()\<close> before it looks anything up: it returns no view, it does not
  fail with slug-taken whatever the collection holds, and it leaves the collection as it
  was.
\<close>

theorem create_parsed_input_throws:
  "createOrganisationSchema_parse body = Inr inp \<Longrightarrow>
   create P env now insertedId inp docs = (Inl TypeError, docs)"
  by (simp add: parse_drops_slug create_without_slug)

theorem create_parsed_input_throws_witness:
  "createOrganisationSchema_parse
      \<lparr> rb_name = Some ''Acme'', rb_code = Some ''acme'', rb_slug = Some ''acme'', rb_status = None \<rparr>
     = Inr \<lparr> ci_name = ''Acme'', ci_code = ''acme'', ci_slug = None, ci_status = Some Org_active \<rparr>
   \<and> create hexPlatform id 1000 ''65f0a1b2c3d4e5f601234569''
        \<lparr> ci_name = ''Acme'', ci_code = ''acme'', ci_slug = None, ci_status = Some Org_active \<rparr> [globex]
     = (Inl TypeError, [globex])"
proof -
  have p: "createOrganisationSchema_parse
      \<lparr> rb_name = Some ''Acme'', rb_code = Some ''acme'', rb_slug = Some ''acme'', rb_status = None \<rparr>
     = Inr \<lparr> ci_name = ''Acme'', ci_code = ''acme'', ci_slug = None, ci_status = Some Org_active \<rparr>"
    by (simp add: createOrganisationSchema_parse_def matchesSlugPattern_def isSlugChar_def)
  from create_parsed_input_throws [OF p, of hexPlatform id 1000 "''65f0a1b2c3d4e5f601234569''" "[globex]"] p
  show ?thesis by simp
qed

text \<open>
  So the handler of \<open>POST /organisations\<close> answers 500 to every body: either the parse
  fails (a body that the route's schema lets through has no \<open>code\<close>), or the parse
  succeeds and \<open>create\<close> throws.
\<close>

lemma createHandler_answers_500:
  "createHandler P env now insertedId requestBody docs = (Http500, docs)"
proof (cases "createOrganisationSchema_parse requestBody")
  case (Inl e)
  then show ?thesis by (cases e) (simp add: createHandler_def)
next
  case (Inr inp)
  then show ?thesis
    by (simp add: createHandler_def parse_drops_slug create_without_slug)
qed

section \<open>The organisation service: identities\<close>

text \<open>
  Claim C5. For every string given as an identity to \<open>getById\<close>, \<open>update\<close> or
  \<open>delete\<close>: when the driver's test rejects the string the call fails with the
  invalid-id error (so not with not-found) and leaves the collection as it was; when the
  test accepts it and no stored organisation has the identity it denotes, the call fails
  with not-found (so not with invalid-id) and leaves the collection as it was.
\<close>

theorem identity_errors:
  "(\<not> ObjectId_isValid P i \<longrightarrow>
      getById P i docs = Inl InvalidOrganisationIdError \<and>
      update P env1 env2 now i inp docs = (Inl InvalidOrganisationIdError, docs) \<and>
      delete P i docs = (Inl InvalidOrganisationIdError, docs))
   \<and> (ObjectId_isValid P i \<and> ObjectId_new P i \<notin> o_id ` set docs \<longrightarrow>
      getById P i docs = Inl OrganisationNotFoundError \<and>
      update P env1 env2 now i inp docs = (Inl OrganisationNotFoundError, docs) \<and>
      delete P i docs = (Inl OrganisationNotFoundError, docs))"
proof (intro conjI impI)
  assume "\<not> ObjectId_isValid P i"
  then have "parseObjectId P i = Inl InvalidOrganisationIdError"
    by (simp add: parseObjectId_def)
  then show "getById P i docs = Inl InvalidOrganisationIdError"
    and "update P env1 env2 now i inp docs = (Inl InvalidOrganisationIdError, docs)"
    and "delete P i docs = (Inl InvalidOrganisationIdError, docs)"
    by (simp_all add: getById_def update_def delete_def)
next
  assume "ObjectId_isValid P i \<and> ObjectId_new P i \<notin> o_id ` set docs"
  then have p: "parseObjectId P i = Inr (ObjectId_new P i)"
    and f: "findById (ObjectId_new P i) docs = None"
    by (simp_all add: parseObjectId_def findById_absent)
  from f have d: "deleteById (ObjectId_new P i) docs = (False, docs)"
    by (simp add: deleteById_def findById_def)
  from p f d show "getById P i docs = Inl OrganisationNotFoundError"
    and "update P env1 env2 now i inp docs = (Inl OrganisationNotFoundError, docs)"
    and "delete P i docs = (Inl OrganisationNotFoundError, docs)"
    by (simp_all add: getById_def update_def delete_def)
qed

theorem identity_errors_witness:
  "getById hexPlatform ''not-a-valid-id-format'' [acme] = Inl InvalidOrganisationIdError \<and>
   getById hexPlatform ''65f0a1b2c3d4e5f601234568'' [acme] = Inl OrganisationNotFoundError \<and>
   fst (delete hexPlatform ''65f0a1b2c3d4e5f601234568'' [acme]) = Inl OrganisationNotFoundError"
proof -
  have bad: "\<not> ObjectId_isValid hexPlatform ''not-a-valid-id-format''"
    by (simp add: sample_eval)
  have good: "ObjectId_isValid hexPlatform ''65f0a1b2c3d4e5f601234568'' \<and>
      ObjectId_new hexPlatform ''65f0a1b2c3d4e5f601234568'' \<notin> o_id ` set [acme]"
    by (simp add: sample_eval string_eval)
  from identity_errors [of hexPlatform "''not-a-valid-id-format''" "[acme]"] bad
    identity_errors [of hexPlatform "''65f0a1b2c3d4e5f601234568''" "[acme]"] good
  show ?thesis by simp
qed

section \<open>The organisation service: update\<close>

lemma update_taken_iff:
  assumes "parseObjectId P i = Inr objectId"
    and "findById objectId docs = Some organisation"
  shows "fst (update P env1 env2 now i inp docs) = Inl OrganisationSlugTakenError \<longleftrightarrow>
          (\<exists>s existing. ui_slug inp = Some s \<and> toLowerCase (trim s) \<noteq> o_slug organisation \<and>
             findBySlug (toLowerCase (trim s)) (env1 docs) = Some existing \<and>
             o_id existing \<noteq> objectId)"
proof -
  from assms(2) have "o_id organisation = objectId"
    using find_id_mem [of "\<lambda>d. o_id d = objectId" docs organisation] by (simp add: findById_def)
  with assms show ?thesis
    by (auto simp: update_def normaliseSlug_def Let_def split: option.splits prod.splits)
qed

lemma update_taken_alone:
  assumes "parseObjectId P i = Inr objectId"
    and "findById objectId docs = Some organisation"
    and s: "ui_slug inp = Some s" "toLowerCase (trim s) \<noteq> o_slug organisation"
    and alone: "env1 docs = docs" and ids: "idsUnique docs"
    and other: "\<exists>other \<in> set docs. o_slug other = toLowerCase (trim s)"
  shows "fst (update P env1 env2 now i inp docs) = Inl OrganisationSlugTakenError"
proof -
  from assms(2) have org: "organisation \<in> set docs" "o_id organisation = objectId"
    using find_id_mem [of "\<lambda>d. o_id d = objectId" docs organisation] by (auto simp: findById_def)
  from other obtain existing where e: "findBySlug (toLowerCase (trim s)) docs = Some existing"
    by (cases "findBySlug (toLowerCase (trim s)) docs") (auto simp: findBySlug_def find_none_all)
  then have em: "existing \<in> set docs" "o_slug existing = toLowerCase (trim s)"
    using find_id_mem [of "\<lambda>d. o_slug d = toLowerCase (trim s)" docs existing]
    by (auto simp: findBySlug_def)
  have "o_id existing \<noteq> objectId"
  proof
    assume "o_id existing = objectId"
    with ids em(1) org have "existing = organisation"
      by (auto simp: idsUnique_def distinct_map inj_on_def)
    with em(2) s(2) show False by simp
  qed
  with update_taken_iff [OF assms(1,2), of env1 env2 now inp] s e alone show ?thesis by auto
qed

lemma update_conflict_iff:
  assumes "parseObjectId P i = Inr objectId"
    and "findById objectId docs = Some organisation"
  shows "update P env1 env2 now i inp docs = (Inl OrganisationSlugTakenError, env1 docs) \<longleftrightarrow>
          (\<exists>s existing. ui_slug inp = Some s \<and> toLowerCase (trim s) \<noteq> o_slug organisation \<and>
             findBySlug (toLowerCase (trim s)) (env1 docs) = Some existing \<and>
             o_id existing \<noteq> objectId)"
proof -
  from assms(2) have "o_id organisation = objectId"
    using find_id_mem [of "\<lambda>d. o_id d = objectId" docs organisation] by (simp add: findById_def)
  with assms show ?thesis
    by (auto simp: update_def normaliseSlug_def Let_def split: option.splits prod.splits)
qed

lemma update_let_through:
  assumes "parseObjectId P i = Inr objectId"
    and "findById objectId docs = Some organisation"
    and "\<not> (\<exists>s existing. ui_slug inp = Some s \<and> toLowerCase (trim s) \<noteq> o_slug organisation \<and>
             findBySlug (toLowerCase (trim s)) (env1 docs) = Some existing \<and>
             o_id existing \<noteq> objectId)"
  shows "update P env1 env2 now i inp docs =
      (case updateById objectId
           \<lparr> p_name = map_option normaliseName (ui_name inp),
             p_slug = map_option normaliseSlug (ui_slug inp),
             p_status = ui_status inp, p_updatedAt = Some now \<rparr> (env2 (env1 docs)) of
         (None, docs2) \<Rightarrow> (Inl OrganisationNotFoundError, docs2)
       | (Some updated, docs2) \<Rightarrow> (Inr (toOrganisationResponse P updated), docs2))"
proof -
  from assms(2) have "o_id organisation = objectId"
    using find_id_mem [of "\<lambda>d. o_id d = objectId" docs organisation] by (simp add: findById_def)
  with assms show ?thesis
    by (auto simp: update_def normaliseSlug_def Let_def split: option.splits)
qed

text \<open>
  Claim C6. For every \<open>update\<close> of an organisation that exists when the call loads it:
  if the given slug, trimmed and lower-cased, is the organisation's current slug, the call
  does not fail with slug-taken; the call fails with slug-taken exactly when the normalised
  slug differs from the current one and the lookup by that slug returns a document with
  another identity, so a slug-taken failure always points at a different organisation
  holding the slug; and in a call that runs alone on a collection with unique identities,
  any organisation holding the changed slug makes the call fail with slug-taken.
\<close>

theorem update_slug_check:
  assumes "parseObjectId P i = Inr objectId"
    and "findById objectId docs = Some organisation"
  shows "(\<forall>s. ui_slug inp = Some s \<and> toLowerCase (trim s) = o_slug organisation \<longrightarrow>
            fst (update P env1 env2 now i inp docs) \<noteq> Inl OrganisationSlugTakenError)
     \<and> (fst (update P env1 env2 now i inp docs) = Inl OrganisationSlugTakenError \<longleftrightarrow>
          (\<exists>s existing. ui_slug inp = Some s \<and> toLowerCase (trim s) \<noteq> o_slug organisation \<and>
             findBySlug (toLowerCase (trim s)) (env1 docs) = Some existing \<and>
             o_id existing \<noteq> objectId))
     \<and> (fst (update P env1 env2 now i inp docs) = Inl OrganisationSlugTakenError \<longrightarrow>
          (\<exists>s. ui_slug inp = Some s \<and>
             (\<exists>other \<in> set (env1 docs). o_slug other = toLowerCase (trim s) \<and> o_id other \<noteq> objectId)))
     \<and> (\<forall>s. ui_slug inp = Some s \<and> toLowerCase (trim s) \<noteq> o_slug organisation \<and>
            env1 docs = docs \<and> idsUnique docs \<and>
            (\<exists>other \<in> set docs. o_slug other = toLowerCase (trim s)) \<longrightarrow>
            fst (update P env1 env2 now i inp docs) = Inl OrganisationSlugTakenError)"
  using update_taken_iff [OF assms, of env1 env2 now inp]
    update_taken_alone [OF assms, of inp _ env1 env2 now]
  by (auto simp: findBySlug_def dest!: find_id_mem)

theorem update_slug_check_witness:
  "fst (update hexPlatform (\<lambda>s. s) (\<lambda>s. s) 9000 ''65F0A1B2C3D4E5F601234567''
          \<lparr> ui_name = None, ui_slug = Some '' ACME '', ui_status = None \<rparr> [acme, globex])
      \<noteq> Inl OrganisationSlugTakenError
   \<and> fst (update hexPlatform (\<lambda>s. s) (\<lambda>s. s) 9000 ''65F0A1B2C3D4E5F601234567''
          \<lparr> ui_name = None, ui_slug = Some ''Globex'', ui_status = None \<rparr> [acme, globex])
      = Inl OrganisationSlugTakenError"
proof -
  let ?i = "''65F0A1B2C3D4E5F601234567''"
  let ?same = "\<lparr> ui_name = None, ui_slug = Some '' ACME '', ui_status = None \<rparr>"
  let ?other = "\<lparr> ui_name = None, ui_slug = Some ''Globex'', ui_status = None \<rparr>"
  have p: "parseObjectId hexPlatform ?i = Inr (o_id acme)"
    by (simp add: parseObjectId_def sample_eval string_eval)
  have f: "findById (o_id acme) [acme, globex] = Some acme"
    by (simp add: findById_def)
  have same: "ui_slug ?same = Some '' ACME '' \<and> toLowerCase (trim '' ACME '') = o_slug acme"
    by (simp add: sample_eval string_eval)
  have other: "ui_slug ?other = Some ''Globex'' \<and> toLowerCase (trim ''Globex'') \<noteq> o_slug acme \<and>
      (\<lambda>s. s) [acme, globex] = [acme, globex] \<and> idsUnique [acme, globex] \<and>
      (\<exists>other \<in> set [acme, globex]. o_slug other = toLowerCase (trim ''Globex''))"
    by (simp add: sample_eval string_eval idsUnique_def)
  from update_slug_check [OF p f, of ?same "\<lambda>s. s" "\<lambda>s. s" 9000] same
  have "fst (update hexPlatform (\<lambda>s. s) (\<lambda>s. s) 9000 ?i ?same [acme, globex])
      \<noteq> Inl OrganisationSlugTakenError"
    by blast
  moreover from update_slug_check [OF p f, of ?other "\<lambda>s. s" "\<lambda>s. s" 9000] other
  have "fst (update hexPlatform (\<lambda>s. s) (\<lambda>s. s) 9000 ?i ?other [acme, globex])
      = Inl OrganisationSlugTakenError"
    by blast
  ultimately show ?thesis by blast
qed

text \<open>
  Claim C8, as the code has it. For every \<open>update\<close> with a well-formed identity: when
  the record is absent at load time the call fails with not-found. When the record was
  loaded and the changed slug is held by another organisation at the slug lookup, the call
  fails with slug-taken before any write, whether or not the record is still there.
  Otherwise the call reaches its write: when the record is gone by then the call fails
  with not-found, and when it is still there the call returns a view. Every returned view
  is the view of the stored record after the write, whose update time is the clock reading
  of the call, and in which each of name, slug and status that the input does not supply,
  the creation time and the identity keep the value the record had when the write arrived.
\<close>

theorem update_effect:
  assumes "parseObjectId P i = Inr objectId"
  shows "(findById objectId docs = None \<longrightarrow>
            update P env1 env2 now i inp docs = (Inl OrganisationNotFoundError, docs))
     \<and> (\<forall>organisation. findById objectId docs = Some organisation \<longrightarrow>
          ((\<exists>s existing. ui_slug inp = Some s \<and> toLowerCase (trim s) \<noteq> o_slug organisation \<and>
               findBySlug (toLowerCase (trim s)) (env1 docs) = Some existing \<and>
               o_id existing \<noteq> objectId) \<longrightarrow>
             update P env1 env2 now i inp docs = (Inl OrganisationSlugTakenError, env1 docs))
        \<and> (\<not> (\<exists>s existing. ui_slug inp = Some s \<and> toLowerCase (trim s) \<noteq> o_slug organisation \<and>
               findBySlug (toLowerCase (trim s)) (env1 docs) = Some existing \<and>
               o_id existing \<noteq> objectId) \<and>
            findById objectId (env2 (env1 docs)) = None \<longrightarrow>
             update P env1 env2 now i inp docs
               = (Inl OrganisationNotFoundError, env2 (env1 docs)))
        \<and> (\<not> (\<exists>s existing. ui_slug inp = Some s \<and> toLowerCase (trim s) \<noteq> o_slug organisation \<and>
               findBySlug (toLowerCase (trim s)) (env1 docs) = Some existing \<and>
               o_id existing \<noteq> objectId) \<and>
            findById objectId (env2 (env1 docs)) \<noteq> None \<longrightarrow>
             (\<exists>v docs'. update P env1 env2 now i inp docs = (Inr v, docs'))))
     \<and> (\<forall>v docs'. update P env1 env2 now i inp docs = (Inr v, docs') \<longrightarrow>
          (\<exists>current stored.
             findById objectId (env2 (env1 docs)) = Some current \<and>
             findById objectId docs' = Some stored \<and>
             v = toOrganisationResponse P stored \<and>
             stored = current \<lparr>
               o_name := (case ui_name inp of None \<Rightarrow> o_name current | Some n \<Rightarrow> trim n),
               o_slug := (case ui_slug inp of None \<Rightarrow> o_slug current | Some s \<Rightarrow> toLowerCase (trim s)),
               o_status := (case ui_status inp of None \<Rightarrow> o_status current | Some st \<Rightarrow> st),
               o_updatedAt := now \<rparr> \<and>
             r_updatedAt v = toISOString P now \<and>
             docs' = replaceFirst (\<lambda>d. o_id d = objectId) (\<lambda>d. d \<lparr>
               o_name := (case ui_name inp of None \<Rightarrow> o_name d | Some n \<Rightarrow> trim n),
               o_slug := (case ui_slug inp of None \<Rightarrow> o_slug d | Some s \<Rightarrow> toLowerCase (trim s)),
               o_status := (case ui_status inp of None \<Rightarrow> o_status d | Some st \<Rightarrow> st),
               o_updatedAt := now \<rparr>) (env2 (env1 docs))))"
proof -
  let ?payload = "\<lparr> p_name = map_option normaliseName (ui_name inp),
                    p_slug = map_option normaliseSlug (ui_slug inp),
                    p_status = ui_status inp, p_updatedAt = Some now \<rparr>"
  let ?set = "\<lambda>d::'a OrganisationDocument. d \<lparr>
               o_name := (case ui_name inp of None \<Rightarrow> o_name d | Some n \<Rightarrow> trim n),
               o_slug := (case ui_slug inp of None \<Rightarrow> o_slug d | Some s \<Rightarrow> toLowerCase (trim s)),
               o_status := (case ui_status inp of None \<Rightarrow> o_status d | Some st \<Rightarrow> st),
               o_updatedAt := now \<rparr>"
  let ?held = "\<lambda>organisation::'a OrganisationDocument.
      \<exists>s existing. ui_slug inp = Some s \<and> toLowerCase (trim s) \<noteq> o_slug organisation \<and>
         findBySlug (toLowerCase (trim s)) (env1 docs) = Some existing \<and> o_id existing \<noteq> objectId"
  have set: "applySet ?payload = ?set"
    by (auto simp: applySet_def fun_eq_iff normaliseName_def normaliseSlug_def split: option.splits)
  have absent: "update P env1 env2 now i inp docs = (Inl OrganisationNotFoundError, docs)"
    if "findById objectId docs = None"
    using assms that by (simp add: update_def)
  have held: "update P env1 env2 now i inp docs = (Inl OrganisationSlugTakenError, env1 docs)"
    if "findById objectId docs = Some organisation" "?held organisation" for organisation
    using update_conflict_iff [OF assms that(1), of env1 env2 now inp] that(2) by simp
  have gone: "update P env1 env2 now i inp docs = (Inl OrganisationNotFoundError, env2 (env1 docs))"
    if "findById objectId docs = Some organisation" "\<not> ?held organisation"
      "findById objectId (env2 (env1 docs)) = None" for organisation
    using update_let_through [OF assms that(1), where inp = inp and ?env1.0 = env1
        and ?env2.0 = env2 and now = now] that(2,3)
    by (simp add: updateById_def findById_def)
  have there: "\<exists>v docs'. update P env1 env2 now i inp docs = (Inr v, docs')"
    if "findById objectId docs = Some organisation" "\<not> ?held organisation"
      "findById objectId (env2 (env1 docs)) \<noteq> None" for organisation
    using update_let_through [OF assms that(1), where inp = inp and ?env1.0 = env1
        and ?env2.0 = env2 and now = now] that(2,3)
    by (auto simp: updateById_def findById_def)
  have written: "\<exists>current stored.
             findById objectId (env2 (env1 docs)) = Some current \<and>
             findById objectId docs' = Some stored \<and>
             v = toOrganisationResponse P stored \<and>
             stored = ?set current \<and>
             r_updatedAt v = toISOString P now \<and>
             docs' = replaceFirst (\<lambda>d. o_id d = objectId) ?set (env2 (env1 docs))"
    if ok: "update P env1 env2 now i inp docs = (Inr v, docs')" for v docs'
  proof -
    from ok assms obtain organisation where l: "findById objectId docs = Some organisation"
      by (auto simp: update_def split: option.splits)
    have n: "\<not> ?held organisation"
    proof
      assume "?held organisation"
      from held [OF l this] ok show False by simp
    qed
    from update_let_through [OF assms l, where inp = inp and ?env1.0 = env1
        and ?env2.0 = env2 and now = now] n ok obtain current where
      c: "find (\<lambda>d. o_id d = objectId) (env2 (env1 docs)) = Some current"
      and v: "v = toOrganisationResponse P (applySet ?payload current)"
      and d: "docs' = replaceFirst (\<lambda>d. o_id d = objectId) (applySet ?payload) (env2 (env1 docs))"
      by (auto simp: updateById_def split: option.splits)
    from c have "o_id current = objectId"
      using find_id_mem [of "\<lambda>d. o_id d = objectId" "env2 (env1 docs)" current] by simp
    then have "find (\<lambda>d. o_id d = objectId)
        (replaceFirst (\<lambda>d. o_id d = objectId) (applySet ?payload) (env2 (env1 docs)))
        = Some (applySet ?payload current)"
      using c by (intro find_replaceFirst) (simp_all add: applySet_id)
    with c v d show ?thesis
      unfolding set by (simp add: findById_def toOrganisationResponse_def)
  qed
  from absent held gone there written show ?thesis by blast
qed

theorem update_effect_witness:
  "(\<exists>v docs'. update hexPlatform (\<lambda>s. s) (\<lambda>s. s) 9000 ''65f0a1b2c3d4e5f601234568''
        \<lparr> ui_name = Some '' Globex Ltd '', ui_slug = None, ui_status = None \<rparr> [acme, globex] = (Inr v, docs')
      \<and> r_name v = ''Globex Ltd'' \<and> r_slug v = ''globex'' \<and> r_status v = Org_inactive
      \<and> r_createdAt v = ''2000'' \<and> r_updatedAt v = ''9000'')
   \<and> update hexPlatform (\<lambda>s. s) (\<lambda>s. snd (delete hexPlatform ''65f0a1b2c3d4e5f601234568'' s)) 9000
        ''65f0a1b2c3d4e5f601234568''
        \<lparr> ui_name = Some '' Globex Ltd '', ui_slug = None, ui_status = None \<rparr> [acme, globex]
      = (Inl OrganisationNotFoundError, [acme])"
proof -
  let ?i = "''65f0a1b2c3d4e5f601234568''"
  let ?inp = "\<lparr> ui_name = Some '' Globex Ltd '', ui_slug = None, ui_status = None \<rparr>"
  let ?del = "\<lambda>s. snd (delete hexPlatform ?i s)"
  have p: "parseObjectId hexPlatform ?i = Inr (o_id globex)"
    by (simp add: parseObjectId_def sample_eval string_eval)
  have del: "?del [acme, globex] = [acme]"
    by (simp add: delete_def p deleteById_def) (simp add: sample_eval)
  have f: "findById (o_id globex) [acme, globex] = Some globex"
    by (simp add: findById_def sample_eval)
  have g: "findById (o_id globex) [acme] = None"
    by (simp add: findById_def sample_eval)
  have n: "\<And>e1. \<not> (\<exists>s existing. ui_slug ?inp = Some s \<and> toLowerCase (trim s) \<noteq> o_slug globex \<and>
      findBySlug (toLowerCase (trim s)) (e1 [acme, globex]) = Some existing \<and>
      o_id existing \<noteq> o_id globex)"
    by simp
  from update_effect [OF p, of "[acme, globex]" "\<lambda>s. s" ?del 9000 ?inp] f g n del
  have race: "update hexPlatform (\<lambda>s. s) ?del 9000 ?i ?inp [acme, globex]
      = (Inl OrganisationNotFoundError, [acme])"
    by simp
  from update_effect [OF p, of "[acme, globex]" "\<lambda>s. s" "\<lambda>s. s" 9000 ?inp] f n
  obtain v docs' where u: "update hexPlatform (\<lambda>s. s) (\<lambda>s. s) 9000 ?i ?inp [acme, globex] = (Inr v, docs')"
    by auto
  with update_effect [OF p, of "[acme, globex]" "\<lambda>s. s" "\<lambda>s. s" 9000 ?inp] f
  have "v = toOrganisationResponse hexPlatform
      (globex \<lparr> o_name := trim '' Globex Ltd '', o_slug := o_slug globex,
                o_status := o_status globex, o_updatedAt := 9000 \<rparr>)"
    by auto
  then have "r_name v = ''Globex Ltd'' \<and> r_slug v = ''globex'' \<and> r_status v = Org_inactive
      \<and> r_createdAt v = ''2000'' \<and> r_updatedAt v = ''9000''"
    by (simp add: toOrganisationResponse_def sample_eval string_eval)
  with u race show ?thesis by blast
qed

text \<open>
  The record \<open>acme\<close> is loaded, another request deletes it, and the slug lookup then finds
  \<open>globex\<close> holding the slug asked for: the record has disappeared between the load and
  the write, and the call fails with slug-taken, not with not-found.
\<close>

theorem update_gone_with_held_slug:
  "findById ''65f0a1b2c3d4e5f601234567'' [acme, globex] = Some acme \<and>
   findById ''65f0a1b2c3d4e5f601234567'' (id (acmeDeleted [acme, globex])) = None \<and>
   update hexPlatform acmeDeleted id 9000 ''65f0a1b2c3d4e5f601234567''
      \<lparr> ui_name = None, ui_slug = Some ''globex'', ui_status = None \<rparr> [acme, globex]
     = (Inl OrganisationSlugTakenError, [globex])"
proof -
  have p: "parseObjectId hexPlatform ''65f0a1b2c3d4e5f601234567'' = Inr ''65f0a1b2c3d4e5f601234567''"
    by (simp add: parseObjectId_def sample_eval string_eval)
  have d: "acmeDeleted [acme, globex] = [globex]"
    by (simp add: acmeDeleted_def delete_def p deleteById_def) (simp add: sample_eval)
  have f: "findById ''65f0a1b2c3d4e5f601234567'' [acme, globex] = Some acme"
    by (simp add: findById_def sample_eval)
  have g: "findById ''65f0a1b2c3d4e5f601234567'' [globex] = None"
    by (simp add: findById_def sample_eval)
  have n: "normaliseSlug ''globex'' = ''globex''"
    by (simp add: normaliseSlug_def string_eval)
  have s: "findBySlug ''globex'' [globex] = Some globex"
    by (simp add: findBySlug_def sample_eval)
  have "update hexPlatform acmeDeleted id 9000 ''65f0a1b2c3d4e5f601234567''
      \<lparr> ui_name = None, ui_slug = Some ''globex'', ui_status = None \<rparr> [acme, globex]
     = (Inl OrganisationSlugTakenError, [globex])"
    by (simp add: update_def p f d n s Let_def) (simp add: sample_eval)
  with f g d show ?thesis by simp
qed

section \<open>The login handler\<close>

text \<open>The five ways through the handler, one equation each.\<close>

lemma login_no_db:
  "login P L cfg t sid body None = (InternalServerError ''Database connection not initialised'', None)"
  by (simp add: login_def)

lemma login_absent:
  "findUser L (b_email body) coll = None \<Longrightarrow>
   login P L cfg t sid body (Some coll) = (Unauthorized ''Invalid email or password'', Some coll)"
  by (simp add: login_def)

lemma login_mismatch:
  "findUser L (b_email body) coll = Some usr \<Longrightarrow>
   \<not> bcrypt_compare L (b_password body) (u_passwordHash usr) \<Longrightarrow>
   login P L cfg t sid body (Some coll) = (Unauthorized ''Invalid email or password'', Some coll)"
  by (simp add: login_def)

lemma login_inactive:
  "findUser L (b_email body) coll = Some usr \<Longrightarrow>
   bcrypt_compare L (b_password body) (u_passwordHash usr) \<Longrightarrow>
   u_status usr \<noteq> User_active \<Longrightarrow>
   login P L cfg t sid body (Some coll) =
     (Forbidden (''User is '' @ statusText (u_status usr)), Some coll)"
  by (simp add: login_def)

lemma login_success:
  "findUser L (b_email body) coll = Some usr \<Longrightarrow>
   bcrypt_compare L (b_password body) (u_passwordHash usr) \<Longrightarrow>
   u_status usr = User_active \<Longrightarrow>
   login P L cfg t sid body (Some coll) =
     (Reply
        \<lparr> accessToken =
            \<lparr> t_payload =
                \<lparr> sub = toHexString P (u_id usr), email = u_email usr,
                  orgId = map_option (toHexString P) (u_orgId usr),
                  roleId = map_option (toHexString P) (u_roleId usr),
                  designationId = map_option (toHexString P) (u_designationId usr),
                  sessionId = sid, tokenType = access \<rparr>,
              t_expiresIn = JWT_ACCESS_TTL cfg, t_key = JWT_ACCESS_SECRET cfg \<rparr>,
          refreshToken =
            \<lparr> t_payload =
                \<lparr> sub = toHexString P (u_id usr), email = u_email usr,
                  orgId = map_option (toHexString P) (u_orgId usr),
                  roleId = map_option (toHexString P) (u_roleId usr),
                  designationId = map_option (toHexString P) (u_designationId usr),
                  sessionId = sid, tokenType = refresh \<rparr>,
              t_expiresIn = JWT_REFRESH_TTL cfg, t_key = JWT_REFRESH_SECRET cfg \<rparr>,
          user =
            \<lparr> lu_id = toHexString P (u_id usr), lu_email = u_email usr,
              lu_status = u_status usr,
              lu_orgId = map_option (toHexString P) (u_orgId usr),
              lu_roleId = map_option (toHexString P) (u_roleId usr),
              lu_designationId = map_option (toHexString P) (u_designationId usr),
              lu_mobileNumber = u_mobileNumber usr,
              lu_lastLoginAt = toISOString P t \<rparr> \<rparr>,
      Some (users_updateOne (u_id usr)
              (\<lambda>u. u \<lparr> u_lastLoginAt := Some t, u_updatedAt := t \<rparr>) coll))"
  by (simp add: login_def jwt_sign_def Let_def)

lemma login_reply_cases:
  assumes "login P L cfg t sid body db = (Reply r, db')"
  obtains coll usr where "db = Some coll" "findUser L (b_email body) coll = Some usr"
    "bcrypt_compare L (b_password body) (u_passwordHash usr)" "u_status usr = User_active"
proof (cases db)
  case None
  with assms show ?thesis by (simp add: login_no_db)
next
  case (Some coll)
  show ?thesis
  proof (cases "findUser L (b_email body) coll")
    case None
    with assms Some show ?thesis by (simp add: login_absent)
  next
    case (Some usr)
    note found = this
    show ?thesis
    proof (cases "bcrypt_compare L (b_password body) (u_passwordHash usr)")
      case False
      with assms \<open>db = Some coll\<close> found show ?thesis by (simp add: login_mismatch)
    next
      case True
      show ?thesis
      proof (cases "u_status usr = User_active")
        case False
        with assms \<open>db = Some coll\<close> found True show ?thesis by (simp add: login_inactive)
      next
        case active: True
        from that [OF \<open>db = Some coll\<close> found True active] show ?thesis .
      qed
    qed
  qed
qed

lemmas user_eval = plainLibs_def someUsers_def alice_def bob_def findUser_def users_findOne_def
  escapeForRegex_def isRegexSpecial_def

lemma find_alice:
  "findUser plainLibs '' Alice@Example.com '' someUsers = Some alice"
  by (simp add: user_eval string_eval)

lemma find_bob: "findUser plainLibs ''bob@example.com'' someUsers = Some bob"
  by (simp add: user_eval string_eval)

lemma find_carol: "findUser plainLibs ''carol@example.com'' someUsers = None"
  by (simp add: user_eval string_eval)

lemma alice_logs_in:
  "\<exists>r db'. login hexPlatform plainLibs cfg 5000 ''sid-1''
      \<lparr> b_email = '' Alice@Example.com '', b_password = ''ChangeMeNow!123'' \<rparr> (Some someUsers)
     = (Reply r, db')"
proof -
  let ?body = "\<lparr> b_email = '' Alice@Example.com '', b_password = ''ChangeMeNow!123'' \<rparr>"
  have "findUser plainLibs (b_email ?body) someUsers = Some alice"
    using find_alice by simp
  moreover have "bcrypt_compare plainLibs (b_password ?body) (u_passwordHash alice)"
    and "u_status alice = User_active"
    by (simp_all add: plainLibs_def alice_def)
  ultimately show ?thesis
    using login_success [of plainLibs ?body someUsers alice hexPlatform cfg 5000 "''sid-1''"]
    by simp
qed

text \<open>
  Claim C2. Take any two login calls on an initialised database: in one the submitted
  email finds no user (neither exactly nor without regard to case), in the other it finds
  a user whose stored hash the submitted password does not match. Both calls end in the
  same outcome, \<open>Unauthorized\<close> with the message \<open>Invalid email or password\<close>, whatever
  the rest of the two requests, clocks and collections are.
\<close>

theorem login_failures_alike:
  assumes "findUser L1 (b_email body1) coll1 = None"
    and "findUser L2 (b_email body2) coll2 = Some usr"
    and "\<not> bcrypt_compare L2 (b_password body2) (u_passwordHash usr)"
  shows "fst (login P1 L1 cfg1 t1 sid1 body1 (Some coll1))
           = fst (login P2 L2 cfg2 t2 sid2 body2 (Some coll2))
     \<and> fst (login P1 L1 cfg1 t1 sid1 body1 (Some coll1)) = Unauthorized ''Invalid email or password''"
  using assms by (simp add: login_absent login_mismatch)

theorem login_failures_alike_witness:
  "fst (login hexPlatform plainLibs splitConfig 5000 ''sid-1''
          \<lparr> b_email = ''carol@example.com'', b_password = ''hunter2hunter2'' \<rparr> (Some someUsers))
     = fst (login hexPlatform plainLibs splitConfig 6000 ''sid-2''
          \<lparr> b_email = ''bob@example.com'', b_password = ''wrong-password'' \<rparr> (Some someUsers))"
proof -
  let ?unknown = "\<lparr> b_email = ''carol@example.com'', b_password = ''hunter2hunter2'' \<rparr>"
  let ?wrong = "\<lparr> b_email = ''bob@example.com'', b_password = ''wrong-password'' \<rparr>"
  have a: "findUser plainLibs (b_email ?unknown) someUsers = None"
    using find_carol by simp
  have b: "findUser plainLibs (b_email ?wrong) someUsers = Some bob"
    using find_bob by simp
  have c: "\<not> bcrypt_compare plainLibs (b_password ?wrong) (u_passwordHash bob)"
    by (simp add: plainLibs_def bob_def)
  from login_failures_alike [OF a b c, of hexPlatform splitConfig 5000 "''sid-1''"
      hexPlatform splitConfig 6000 "''sid-2''"]
  show ?thesis by simp
qed

text \<open>
  Claim C3. When the user is found, the password matches the stored hash and the status
  is not \<open>active\<close>, login fails with \<open>Forbidden\<close> and the message \<open>User is\<close>
  followed by the text of that status, and writes nothing. A login that returns a reply
  found a user whose password matched and whose status is \<open>active\<close>. The status is
  looked at only after the credential check: every \<open>Forbidden\<close> outcome comes from a matched
  password, and a found user with a wrong password gets \<open>Unauthorized\<close> whatever the
  status.
\<close>

theorem login_status_gate:
  "(\<forall>usr. findUser L (b_email body) coll = Some usr \<and>
        bcrypt_compare L (b_password body) (u_passwordHash usr) \<and> u_status usr \<noteq> User_active \<longrightarrow>
        login P L cfg t sid body (Some coll)
          = (Forbidden (''User is '' @ statusText (u_status usr)), Some coll))
   \<and> (\<forall>r db'. login P L cfg t sid body db = (Reply r, db') \<longrightarrow>
        (\<exists>coll usr. db = Some coll \<and> findUser L (b_email body) coll = Some usr \<and>
           bcrypt_compare L (b_password body) (u_passwordHash usr) \<and>
           u_status usr = User_active \<and> lu_status (user r) = User_active))
   \<and> (\<forall>m db'. login P L cfg t sid body db = (Forbidden m, db') \<longrightarrow>
        (\<exists>coll usr. db = Some coll \<and> findUser L (b_email body) coll = Some usr \<and>
           bcrypt_compare L (b_password body) (u_passwordHash usr) \<and>
           u_status usr \<noteq> User_active \<and> m = ''User is '' @ statusText (u_status usr)))
   \<and> (\<forall>usr. findUser L (b_email body) coll = Some usr \<and>
        \<not> bcrypt_compare L (b_password body) (u_passwordHash usr) \<longrightarrow>
        login P L cfg t sid body (Some coll) = (Unauthorized ''Invalid email or password'', Some coll))"
proof (intro conjI allI impI)
  fix usr
  assume "findUser L (b_email body) coll = Some usr \<and>
        bcrypt_compare L (b_password body) (u_passwordHash usr) \<and> u_status usr \<noteq> User_active"
  then show "login P L cfg t sid body (Some coll)
          = (Forbidden (''User is '' @ statusText (u_status usr)), Some coll)"
    by (simp add: login_inactive)
next
  fix r db'
  assume ok: "login P L cfg t sid body db = (Reply r, db')"
  then obtain coll usr where c: "db = Some coll" "findUser L (b_email body) coll = Some usr"
    "bcrypt_compare L (b_password body) (u_passwordHash usr)" "u_status usr = User_active"
    by (rule login_reply_cases)
  from ok login_success [OF c(2,3,4), of P cfg t sid] c(1,4)
  have "lu_status (user r) = User_active" by auto
  with c show "\<exists>coll usr. db = Some coll \<and> findUser L (b_email body) coll = Some usr \<and>
           bcrypt_compare L (b_password body) (u_passwordHash usr) \<and>
           u_status usr = User_active \<and> lu_status (user r) = User_active"
    by blast
next
  fix m db'
  assume "login P L cfg t sid body db = (Forbidden m, db')"
  then show "\<exists>coll usr. db = Some coll \<and> findUser L (b_email body) coll = Some usr \<and>
           bcrypt_compare L (b_password body) (u_passwordHash usr) \<and>
           u_status usr \<noteq> User_active \<and> m = ''User is '' @ statusText (u_status usr)"
    by (auto simp: login_def Let_def split: option.splits if_splits)
next
  fix usr
  assume "findUser L (b_email body) coll = Some usr \<and>
        \<not> bcrypt_compare L (b_password body) (u_passwordHash usr)"
  then show "login P L cfg t sid body (Some coll) = (Unauthorized ''Invalid email or password'', Some coll)"
    by (simp add: login_mismatch)
qed

theorem login_status_gate_witness:
  "login hexPlatform plainLibs splitConfig 5000 ''sid-1''
      \<lparr> b_email = ''bob@example.com'', b_password = ''hunter2hunter2'' \<rparr> (Some someUsers)
     = (Forbidden ''User is invited'', Some someUsers)
   \<and> login hexPlatform plainLibs splitConfig 5000 ''sid-1''
      \<lparr> b_email = ''bob@example.com'', b_password = ''wrong-password'' \<rparr> (Some someUsers)
     = (Unauthorized ''Invalid email or password'', Some someUsers)"
proof -
  let ?right = "\<lparr> b_email = ''bob@example.com'', b_password = ''hunter2hunter2'' \<rparr>"
  let ?wrong = "\<lparr> b_email = ''bob@example.com'', b_password = ''wrong-password'' \<rparr>"
  have r: "findUser plainLibs (b_email ?right) someUsers = Some bob \<and>
      bcrypt_compare plainLibs (b_password ?right) (u_passwordHash bob) \<and>
      u_status bob \<noteq> User_active"
    using find_bob by (simp add: plainLibs_def bob_def)
  have w: "findUser plainLibs (b_email ?wrong) someUsers = Some bob \<and>
      \<not> bcrypt_compare plainLibs (b_password ?wrong) (u_passwordHash bob)"
    using find_bob by (simp add: plainLibs_def bob_def)
  have s: "''User is '' @ statusText (u_status bob) = ''User is invited''"
    by (simp add: bob_def)
  from login_status_gate [of plainLibs ?right someUsers hexPlatform splitConfig 5000 "''sid-1''"] r s
  have "login hexPlatform plainLibs splitConfig 5000 ''sid-1'' ?right (Some someUsers)
     = (Forbidden ''User is invited'', Some someUsers)"
    by metis
  moreover
  from login_status_gate [of plainLibs ?wrong someUsers hexPlatform splitConfig 5000 "''sid-1''"] w
  have "login hexPlatform plainLibs splitConfig 5000 ''sid-1'' ?wrong (Some someUsers)
     = (Unauthorized ''Invalid email or password'', Some someUsers)"
    by metis
  ultimately show ?thesis by blast
qed

text \<open>
  Claim C4, as the code has it. For every successful login, the returned access token and
  refresh token decode to payloads that share the same session identifier (the one freshly
  generated for that login, \<open>sid\<close>) and the same subject (the user's id) and differ in
  token kind (\<open>access\<close> and \<open>refresh\<close>); each expires one validity period after its
  issue. The access token is signed with the configured access secret and access validity
  period, the refresh token with the configured refresh secret and refresh validity
  period; these are different secrets and different periods only when the configuration
  gives different values.
\<close>

theorem login_tokens:
  "\<forall>r db'. login P L cfg t sid body db = (Reply r, db') \<longrightarrow>
     (\<exists>coll usr. db = Some coll \<and> findUser L (b_email body) coll = Some usr \<and>
        (\<forall>seconds issuedA issuedR.
           sessionId (jwt_decode seconds issuedA (accessToken r)) = sid \<and>
           sessionId (jwt_decode seconds issuedR (refreshToken r)) = sid \<and>
           sub (jwt_decode seconds issuedA (accessToken r)) = toHexString P (u_id usr) \<and>
           sub (jwt_decode seconds issuedR (refreshToken r)) = toHexString P (u_id usr) \<and>
           tokenType (jwt_decode seconds issuedA (accessToken r)) = access \<and>
           tokenType (jwt_decode seconds issuedR (refreshToken r)) = refresh \<and>
           exp (jwt_decode seconds issuedA (accessToken r)) = issuedA + seconds (JWT_ACCESS_TTL cfg) \<and>
           exp (jwt_decode seconds issuedR (refreshToken r)) = issuedR + seconds (JWT_REFRESH_TTL cfg)) \<and>
        t_key (accessToken r) = JWT_ACCESS_SECRET cfg \<and>
        t_expiresIn (accessToken r) = JWT_ACCESS_TTL cfg \<and>
        t_key (refreshToken r) = JWT_REFRESH_SECRET cfg \<and>
        t_expiresIn (refreshToken r) = JWT_REFRESH_TTL cfg)"
proof (intro allI impI)
  fix r db'
  assume ok: "login P L cfg t sid body db = (Reply r, db')"
  then obtain coll usr where c: "db = Some coll" "findUser L (b_email body) coll = Some usr"
    "bcrypt_compare L (b_password body) (u_passwordHash usr)" "u_status usr = User_active"
    by (rule login_reply_cases)
  from ok login_success [OF c(2,3,4), of P cfg t sid] c(1)
  have a: "accessToken r =
            \<lparr> t_payload =
                \<lparr> sub = toHexString P (u_id usr), email = u_email usr,
                  orgId = map_option (toHexString P) (u_orgId usr),
                  roleId = map_option (toHexString P) (u_roleId usr),
                  designationId = map_option (toHexString P) (u_designationId usr),
                  sessionId = sid, tokenType = access \<rparr>,
              t_expiresIn = JWT_ACCESS_TTL cfg, t_key = JWT_ACCESS_SECRET cfg \<rparr>"
    and b: "refreshToken r =
            \<lparr> t_payload =
                \<lparr> sub = toHexString P (u_id usr), email = u_email usr,
                  orgId = map_option (toHexString P) (u_orgId usr),
                  roleId = map_option (toHexString P) (u_roleId usr),
                  designationId = map_option (toHexString P) (u_designationId usr),
                  sessionId = sid, tokenType = refresh \<rparr>,
              t_expiresIn = JWT_REFRESH_TTL cfg, t_key = JWT_REFRESH_SECRET cfg \<rparr>"
    by auto
  have "(\<forall>seconds issuedA issuedR.
           sessionId (jwt_decode seconds issuedA (accessToken r)) = sid \<and>
           sessionId (jwt_decode seconds issuedR (refreshToken r)) = sid \<and>
           sub (jwt_decode seconds issuedA (accessToken r)) = toHexString P (u_id usr) \<and>
           sub (jwt_decode seconds issuedR (refreshToken r)) = toHexString P (u_id usr) \<and>
           tokenType (jwt_decode seconds issuedA (accessToken r)) = access \<and>
           tokenType (jwt_decode seconds issuedR (refreshToken r)) = refresh \<and>
           exp (jwt_decode seconds issuedA (accessToken r)) = issuedA + seconds (JWT_ACCESS_TTL cfg) \<and>
           exp (jwt_decode seconds issuedR (refreshToken r)) = issuedR + seconds (JWT_REFRESH_TTL cfg)) \<and>
        t_key (accessToken r) = JWT_ACCESS_SECRET cfg \<and>
        t_expiresIn (accessToken r) = JWT_ACCESS_TTL cfg \<and>
        t_key (refreshToken r) = JWT_REFRESH_SECRET cfg \<and>
        t_expiresIn (refreshToken r) = JWT_REFRESH_TTL cfg"
    unfolding a b by (simp add: jwt_decode_def)
  with c(1,2) show "\<exists>coll usr. db = Some coll \<and> findUser L (b_email body) coll = Some usr \<and>
        (\<forall>seconds issuedA issuedR.
           sessionId (jwt_decode seconds issuedA (accessToken r)) = sid \<and>
           sessionId (jwt_decode seconds issuedR (refreshToken r)) = sid \<and>
           sub (jwt_decode seconds issuedA (accessToken r)) = toHexString P (u_id usr) \<and>
           sub (jwt_decode seconds issuedR (refreshToken r)) = toHexString P (u_id usr) \<and>
           tokenType (jwt_decode seconds issuedA (accessToken r)) = access \<and>
           tokenType (jwt_decode seconds issuedR (refreshToken r)) = refresh \<and>
           exp (jwt_decode seconds issuedA (accessToken r)) = issuedA + seconds (JWT_ACCESS_TTL cfg) \<and>
           exp (jwt_decode seconds issuedR (refreshToken r)) = issuedR + seconds (JWT_REFRESH_TTL cfg)) \<and>
        t_key (accessToken r) = JWT_ACCESS_SECRET cfg \<and>
        t_expiresIn (accessToken r) = JWT_ACCESS_TTL cfg \<and>
        t_key (refreshToken r) = JWT_REFRESH_SECRET cfg \<and>
        t_expiresIn (refreshToken r) = JWT_REFRESH_TTL cfg"
    by blast
qed

theorem login_tokens_witness:
  "\<exists>r db'. login hexPlatform plainLibs splitConfig 5000 ''sid-1''
      \<lparr> b_email = ''alice@example.com'', b_password = ''ChangeMeNow!123'' \<rparr> (Some someUsers)
     = (Reply r, db')
   \<and> sessionId (jwt_decode clockSeconds 5 (accessToken r)) = ''sid-1''
   \<and> sessionId (jwt_decode clockSeconds 5 (refreshToken r)) = ''sid-1''
   \<and> sub (jwt_decode clockSeconds 5 (accessToken r)) = ''65f0a1b2c3d4e5f6012345a1''
   \<and> sub (jwt_decode clockSeconds 5 (refreshToken r)) = ''65f0a1b2c3d4e5f6012345a1''
   \<and> tokenType (jwt_decode clockSeconds 5 (accessToken r)) = access
   \<and> tokenType (jwt_decode clockSeconds 5 (refreshToken r)) = refresh
   \<and> exp (jwt_decode clockSeconds 5 (accessToken r)) = 905
   \<and> exp (jwt_decode clockSeconds 5 (refreshToken r)) = 604805
   \<and> t_key (accessToken r) = ''access-secret'' \<and> t_key (refreshToken r) = ''refresh-secret''
   \<and> t_expiresIn (accessToken r) = ''15m'' \<and> t_expiresIn (refreshToken r) = ''7d''"
proof -
  let ?body = "\<lparr> b_email = ''alice@example.com'', b_password = ''ChangeMeNow!123'' \<rparr>"
  have f: "findUser plainLibs (b_email ?body) someUsers = Some alice"
    by (simp add: user_eval string_eval)
  have c: "bcrypt_compare plainLibs (b_password ?body) (u_passwordHash alice)"
    and a: "u_status alice = User_active"
    by (simp_all add: plainLibs_def alice_def)
  from login_success [OF f c a, of hexPlatform splitConfig 5000 "''sid-1''"]
  obtain r db' where
    ok: "login hexPlatform plainLibs splitConfig 5000 ''sid-1'' ?body (Some someUsers) = (Reply r, db')"
    by blast
  from login_tokens [of hexPlatform plainLibs splitConfig 5000 "''sid-1''" ?body "Some someUsers"] ok f
  have "(\<forall>seconds issuedA issuedR.
           sessionId (jwt_decode seconds issuedA (accessToken r)) = ''sid-1'' \<and>
           sessionId (jwt_decode seconds issuedR (refreshToken r)) = ''sid-1'' \<and>
           sub (jwt_decode seconds issuedA (accessToken r)) = toHexString hexPlatform (u_id alice) \<and>
           sub (jwt_decode seconds issuedR (refreshToken r)) = toHexString hexPlatform (u_id alice) \<and>
           tokenType (jwt_decode seconds issuedA (accessToken r)) = access \<and>
           tokenType (jwt_decode seconds issuedR (refreshToken r)) = refresh \<and>
           exp (jwt_decode seconds issuedA (accessToken r)) = issuedA + seconds (JWT_ACCESS_TTL splitConfig) \<and>
           exp (jwt_decode seconds issuedR (refreshToken r)) = issuedR + seconds (JWT_REFRESH_TTL splitConfig)) \<and>
        t_key (accessToken r) = JWT_ACCESS_SECRET splitConfig \<and>
        t_expiresIn (accessToken r) = JWT_ACCESS_TTL splitConfig \<and>
        t_key (refreshToken r) = JWT_REFRESH_SECRET splitConfig \<and>
        t_expiresIn (refreshToken r) = JWT_REFRESH_TTL splitConfig"
    by auto
  then have "sessionId (jwt_decode clockSeconds 5 (accessToken r)) = ''sid-1''
   \<and> sessionId (jwt_decode clockSeconds 5 (refreshToken r)) = ''sid-1''
   \<and> sub (jwt_decode clockSeconds 5 (accessToken r)) = ''65f0a1b2c3d4e5f6012345a1''
   \<and> sub (jwt_decode clockSeconds 5 (refreshToken r)) = ''65f0a1b2c3d4e5f6012345a1''
   \<and> tokenType (jwt_decode clockSeconds 5 (accessToken r)) = access
   \<and> tokenType (jwt_decode clockSeconds 5 (refreshToken r)) = refresh
   \<and> exp (jwt_decode clockSeconds 5 (accessToken r)) = 905
   \<and> exp (jwt_decode clockSeconds 5 (refreshToken r)) = 604805
   \<and> t_key (accessToken r) = ''access-secret'' \<and> t_key (refreshToken r) = ''refresh-secret''
   \<and> t_expiresIn (accessToken r) = ''15m'' \<and> t_expiresIn (refreshToken r) = ''7d''"
    by (simp add: splitConfig_def clockSeconds_def hexPlatform_def alice_def)
  with ok show ?thesis by blast
qed

text \<open>
  The configuration schema asks only that each setting is non-empty. With one secret and
  one validity period entered for both, a login returns two tokens signed with the same
  key for the same period.
\<close>

theorem login_tokens_shared_secret:
  "envSchema sharedConfig \<and>
   fst (login hexPlatform plainLibs sharedConfig 5000 ''sid-1''
      \<lparr> b_email = ''alice@example.com'', b_password = ''ChangeMeNow!123'' \<rparr> (Some someUsers))
     = Reply
        \<lparr> accessToken =
            \<lparr> t_payload =
                \<lparr> sub = ''65f0a1b2c3d4e5f6012345a1'', email = ''alice@example.com'',
                  orgId = Some ''65f0a1b2c3d4e5f601234567'', roleId = None, designationId = None,
                  sessionId = ''sid-1'', tokenType = access \<rparr>,
              t_expiresIn = ''1h'', t_key = ''one-secret'' \<rparr>,
          refreshToken =
            \<lparr> t_payload =
                \<lparr> sub = ''65f0a1b2c3d4e5f6012345a1'', email = ''alice@example.com'',
                  orgId = Some ''65f0a1b2c3d4e5f601234567'', roleId = None, designationId = None,
                  sessionId = ''sid-1'', tokenType = refresh \<rparr>,
              t_expiresIn = ''1h'', t_key = ''one-secret'' \<rparr>,
          user =
            \<lparr> lu_id = ''65f0a1b2c3d4e5f6012345a1'', lu_email = ''alice@example.com'',
              lu_status = User_active, lu_orgId = Some ''65f0a1b2c3d4e5f601234567'',
              lu_roleId = None, lu_designationId = None, lu_mobileNumber = None,
              lu_lastLoginAt = ''5000'' \<rparr> \<rparr>"
proof -
  let ?body = "\<lparr> b_email = ''alice@example.com'', b_password = ''ChangeMeNow!123'' \<rparr>"
  have f: "findUser plainLibs (b_email ?body) someUsers = Some alice"
    by (simp add: user_eval string_eval)
  have c: "bcrypt_compare plainLibs (b_password ?body) (u_passwordHash alice)"
    and a: "u_status alice = User_active"
    by (simp_all add: plainLibs_def alice_def)
  have e: "envSchema sharedConfig"
    by (simp add: envSchema_def sharedConfig_def)
  show ?thesis
    unfolding login_success [OF f c a]
    using e by (simp add: sharedConfig_def alice_def hexPlatform_def char_of_eq_iff)
qed

text \<open>
  Claim C7. A login that returns a reply has made exactly one write call to the users
  collection: the first record with the user's identity (the user's own record when
  identities are unique) gets its last-login and update times set to the login instant,
  every other record and every other field stay as they were. A login that does not
  return a reply leaves the collection, its write counter included, as it was.
\<close>

theorem login_writes:
  "(\<forall>r db'. login P L cfg t sid body db = (Reply r, db') \<longrightarrow>
      (\<exists>coll usr pre u post. db = Some coll \<and> findUser L (b_email body) coll = Some usr \<and>
          users coll = pre @ u # post \<and> u_id u = u_id usr \<and> (\<forall>x \<in> set pre. u_id x \<noteq> u_id usr) \<and>
          db' = Some (coll \<lparr> users := pre @ u \<lparr> u_lastLoginAt := Some t, u_updatedAt := t \<rparr> # post,
                            writeCalls := Suc (writeCalls coll) \<rparr>) \<and>
          (distinct (map u_id (users coll)) \<longrightarrow> u = usr)))
   \<and> ((\<forall>r. fst (login P L cfg t sid body db) \<noteq> Reply r) \<longrightarrow>
        snd (login P L cfg t sid body db) = db)"
proof (intro conjI allI impI)
  fix r db'
  assume ok: "login P L cfg t sid body db = (Reply r, db')"
  then obtain coll usr where c: "db = Some coll" "findUser L (b_email body) coll = Some usr"
    "bcrypt_compare L (b_password body) (u_passwordHash usr)" "u_status usr = User_active"
    by (rule login_reply_cases)
  from c(2) have mem: "usr \<in> set (users coll)"
    by (auto simp: findUser_def users_findOne_def Let_def split: option.splits if_splits
        dest: find_id_mem)
  then have "\<exists>x \<in> set (users coll). u_id x = u_id usr" by blast
  then obtain pre u post where s: "users coll = pre @ u # post" "u_id u = u_id usr"
    "\<forall>x \<in> set pre. u_id x \<noteq> u_id usr"
    using split_list_first_prop [of "users coll" "\<lambda>x. u_id x = u_id usr"] by blast
  from ok login_success [OF c(2,3,4), of P cfg t sid] c(1)
  have "db' = Some (users_updateOne (u_id usr)
              (\<lambda>u. u \<lparr> u_lastLoginAt := Some t, u_updatedAt := t \<rparr>) coll)"
    by simp
  with s have d: "db' = Some (coll \<lparr> users := pre @ u \<lparr> u_lastLoginAt := Some t, u_updatedAt := t \<rparr> # post,
                            writeCalls := Suc (writeCalls coll) \<rparr>)"
    by (simp add: users_updateOne_def replaceFirst_append)
  have "u = usr" if "distinct (map u_id (users coll))"
    using that mem s(1,2) same_key_same_element [of u_id "users coll" u usr] by simp
  with c(1,2) s d show "\<exists>coll usr pre u post. db = Some coll \<and> findUser L (b_email body) coll = Some usr \<and>
          users coll = pre @ u # post \<and> u_id u = u_id usr \<and> (\<forall>x \<in> set pre. u_id x \<noteq> u_id usr) \<and>
          db' = Some (coll \<lparr> users := pre @ u \<lparr> u_lastLoginAt := Some t, u_updatedAt := t \<rparr> # post,
                            writeCalls := Suc (writeCalls coll) \<rparr>) \<and>
          (distinct (map u_id (users coll)) \<longrightarrow> u = usr)"
    by blast
next
  assume "\<forall>r. fst (login P L cfg t sid body db) \<noteq> Reply r"
  then show "snd (login P L cfg t sid body db) = db"
    by (auto simp: login_def Let_def split: option.splits if_splits)
qed

theorem login_writes_witness:
  "(\<exists>r. login hexPlatform plainLibs splitConfig 5000 ''sid-1''
      \<lparr> b_email = '' Alice@Example.com '', b_password = ''ChangeMeNow!123'' \<rparr> (Some someUsers)
     = (Reply r, Some \<lparr> users = [alice \<lparr> u_lastLoginAt := Some 5000, u_updatedAt := 5000 \<rparr>, bob],
                        writeCalls = 1 \<rparr>))
   \<and> snd (login hexPlatform plainLibs splitConfig 5000 ''sid-1''
      \<lparr> b_email = ''bob@example.com'', b_password = ''hunter2hunter2'' \<rparr> (Some someUsers))
     = Some someUsers"
proof -
  let ?body = "\<lparr> b_email = '' Alice@Example.com '', b_password = ''ChangeMeNow!123'' \<rparr>"
  let ?bob = "\<lparr> b_email = ''bob@example.com'', b_password = ''hunter2hunter2'' \<rparr>"
  from alice_logs_in [of splitConfig] obtain r db' where
    ok: "login hexPlatform plainLibs splitConfig 5000 ''sid-1'' ?body (Some someUsers) = (Reply r, db')"
    by blast
  with login_writes [of hexPlatform plainLibs splitConfig 5000 "''sid-1''" ?body "Some someUsers"]
  obtain usr pre u post where w:
    "findUser plainLibs (b_email ?body) someUsers = Some usr"
    "users someUsers = pre @ u # post" "u_id u = u_id usr" "\<forall>x \<in> set pre. u_id x \<noteq> u_id usr"
    "db' = Some (someUsers \<lparr> users := pre @ u \<lparr> u_lastLoginAt := Some 5000, u_updatedAt := 5000 \<rparr> # post,
                            writeCalls := Suc (writeCalls someUsers) \<rparr>)"
    by auto
  from w(1) find_alice have usr: "usr = alice" by simp
  from w(2,3,4) usr have "pre = [] \<and> u = alice \<and> post = [bob]"
    by (cases pre) (auto simp: someUsers_def alice_def bob_def)
  with w(5) have "db' = Some \<lparr> users = [alice \<lparr> u_lastLoginAt := Some 5000, u_updatedAt := 5000 \<rparr>, bob],
                        writeCalls = 1 \<rparr>"
    by (simp add: someUsers_def)
  with ok have first: "\<exists>r. login hexPlatform plainLibs splitConfig 5000 ''sid-1'' ?body (Some someUsers)
     = (Reply r, Some \<lparr> users = [alice \<lparr> u_lastLoginAt := Some 5000, u_updatedAt := 5000 \<rparr>, bob],
                        writeCalls = 1 \<rparr>)"
    by blast
  have "findUser plainLibs (b_email ?bob) someUsers = Some bob"
    "bcrypt_compare plainLibs (b_password ?bob) (u_passwordHash bob)"
    "u_status bob \<noteq> User_active"
    using find_bob by (simp_all add: plainLibs_def bob_def)
  then have "\<forall>r. fst (login hexPlatform plainLibs splitConfig 5000 ''sid-1'' ?bob (Some someUsers)) \<noteq> Reply r"
    by (simp add: login_inactive)
  with login_writes [of hexPlatform plainLibs splitConfig 5000 "''sid-1''" ?bob "Some someUsers"]
  have "snd (login hexPlatform plainLibs splitConfig 5000 ''sid-1'' ?bob (Some someUsers)) = Some someUsers"
    by blast
  with first show ?thesis by blast
qed

section \<open>Slugs across runs of service calls\<close>





subsection \<open>The format of the stored slugs, whatever runs in the gaps\<close>









subsection \<open>The uniqueness of the stored slugs, for calls that run alone\<close>














end
